theory Spec2Isabelle
  imports Main "HOL-Library.AList" "HOL-Library.Sublist" "HOL-Library.Word"
begin

section \<open>Python values and exceptions\<close>

text \<open>
  Both modules work on dynamically typed Python values. The JSON-like mappings of the
  logging wrapper hold strings, numbers, booleans, lists and nested dictionaries; the
  encoder also accepts a native date/time under \<open>timestamp\<close>, and the decoder hands back
  the embedded \<open>Any\<close> message under \<open>protoPayload\<close>. A dictionary is an association list
  in insertion order, read with \<open>map_of\<close>; the keys of a Python dictionary are distinct.
  A Python float is the 64 bits of its IEEE double.
\<close>

type_synonym pyfloat = "64 word"

datatype any_pb = Any_pb (type_url: string) (any_value: string)

datatype pyval =
    PyNone
  | PyBool bool
  | PyInt int
  | PyFloat pyfloat
  | PyStr string
  | PyList "pyval list"
  | PyDict "(string \<times> pyval) list"
  | PyDatetime int
  | PyMessage any_pb

type_synonym pydict = "(string \<times> pyval) list"

text \<open>The status codes of \<open>grpc.StatusCode\<close>.\<close>

datatype StatusCode =
    OK | CANCELLED | UNKNOWN | INVALID_ARGUMENT | DEADLINE_EXCEEDED | NOT_FOUND
  | ALREADY_EXISTS | PERMISSION_DENIED | RESOURCE_EXHAUSTED | FAILED_PRECONDITION
  | ABORTED | OUT_OF_RANGE | UNIMPLEMENTED | INTERNAL | UNAVAILABLE | DATA_LOSS
  | UNAUTHENTICATED

text \<open>
  The cause carried by a \<open>GaxError\<close>: an RPC error that knows its status code, or anything
  else. \<open>exc_to_code\<close> of \<open>google.gax.grpc\<close> returns the code of the former and \<open>None\<close>
  for the latter.
\<close>

datatype cause = RpcError StatusCode | OtherCause string

fun exc_to_code :: "cause \<Rightarrow> StatusCode option" where
  "exc_to_code (RpcError c) = Some c"
| "exc_to_code (OtherCause _) = None"

text \<open>
  Every exception the two modules raise or let through is a value. \<open>OtherError\<close> stands
  for an exception of the transport that is not a \<open>GaxError\<close>.
\<close>

datatype exn =
    NoKey
  | AttributeError
  | KeyError string
  | TypeError
  | ValueError string
  | GaxError cause
  | NotFound string
  | Conflict string
  | OtherError string

section \<open>Datastore: \<open>gcloud/datastore/entity.py\<close>\<close>

text \<open>
  The \<open>Key\<close> class is defined outside the module; \<open>Entity.save\<close> uses it only through
  \<open>dataset_id\<close>, \<open>to_protobuf()\<close>, \<open>is_partial\<close> and \<open>completed_key(id)\<close>, which are taken as
  parameters here. \<open>completed_key\<close> may raise.
\<close>

record ('key, 'kpb) Key_class =
  dataset_id :: "'key \<Rightarrow> string"
  to_protobuf :: "'key \<Rightarrow> 'kpb"
  is_partial :: "'key \<Rightarrow> bool"
  completed_key :: "'key \<Rightarrow> int \<Rightarrow> exn + 'key"

text \<open>
  An entity is a dictionary (\<open>items\<close>) with a nullable key and the private set
  \<open>_exclude_from_indexes\<close>.
\<close>

record 'key Entity =
  key :: "'key option"
  items :: pydict
  exclude_from_indexes_field :: "string set"

definition Entity_init :: "'key option \<Rightarrow> string list \<Rightarrow> 'key Entity" where
  "Entity_init k exclude =
     \<lparr>key = k, items = [], exclude_from_indexes_field = set exclude\<rparr>"

definition exclude_from_indexes :: "'key Entity \<Rightarrow> string set" where
  "exclude_from_indexes self = exclude_from_indexes_field self"

definition must_key :: "'key Entity \<Rightarrow> exn + 'key" where
  "must_key self = (case key self of None \<Rightarrow> Inl NoKey | Some k \<Rightarrow> Inr k)"

text \<open>
  The connection is external: \<open>save_entity\<close> answers \<open>(assigned, new_id)\<close> or raises, and
  \<open>transaction()\<close> answers the current transaction or \<open>None\<close>. Every call made on the
  connection or on its transaction is appended to a trace.
\<close>

record ('kpb, 'txn) Connection =
  save_entity :: "string \<Rightarrow> 'kpb \<Rightarrow> pydict \<Rightarrow> string set \<Rightarrow> exn + (bool \<times> int)"
  transaction :: "'txn option"

datatype ('key, 'kpb, 'txn) call =
    Call_save_entity string 'kpb pydict "string set"
  | Call_transaction
  | Call_add_auto_id_entity 'txn "'key Entity"

fun is_add_auto_id_entity :: "('key, 'kpb, 'txn) call \<Rightarrow> bool" where
  "is_add_auto_id_entity (Call_add_auto_id_entity _ _) = True"
| "is_add_auto_id_entity _ = False"

text \<open>\<open>connection or _implicit_environ.CONNECTION\<close>\<close>

definition connection_or :: "'c option \<Rightarrow> 'c option \<Rightarrow> 'c option" where
  "connection_or connection implicit =
     (case connection of Some c \<Rightarrow> Some c | None \<Rightarrow> implicit)"

text \<open>
  \<open>Entity.save\<close>. The result is the exception raised or \<open>()\<close>, with the entity and the
  trace as they are when the method is left.
\<close>

definition save ::
  "('key, 'kpb) Key_class \<Rightarrow> ('kpb, 'txn) Connection option \<Rightarrow>
   ('kpb, 'txn) Connection option \<Rightarrow> 'key Entity \<Rightarrow> ('key, 'kpb, 'txn) call list \<Rightarrow>
   (exn + unit) \<times> 'key Entity \<times> ('key, 'kpb, 'txn) call list" where
  "save K connection implicit self tr =
     (let connection = connection_or connection implicit in
      case must_key self of
        Inl e \<Rightarrow> (Inl e, self, tr)
      | Inr k \<Rightarrow>
          (case connection of
             None \<Rightarrow> (Inl AttributeError, self, tr)
           | Some conn \<Rightarrow>
               (let tr1 = tr @ [Call_save_entity (dataset_id K k) (to_protobuf K k)
                                  (items self) (exclude_from_indexes self)] in
                case save_entity conn (dataset_id K k) (to_protobuf K k)
                       (items self) (exclude_from_indexes self) of
                  Inl e \<Rightarrow> (Inl e, self, tr1)
                | Inr (assigned, new_id) \<Rightarrow>
                    (let tr2 = tr1 @ [Call_transaction];
                         tr3 = (case transaction conn of
                                  None \<Rightarrow> tr2
                                | Some t \<Rightarrow>
                                    if is_partial K k
                                    then tr2 @ [Call_add_auto_id_entity t self]
                                    else tr2)
                     in if assigned
                        then (case key self of
                                None \<Rightarrow> (Inl AttributeError, self, tr3)
                              | Some k0 \<Rightarrow>
                                  (case completed_key K k0 new_id of
                                     Inl e \<Rightarrow> (Inl e, self, tr3)
                                   | Inr k' \<Rightarrow> (Inr (), self\<lparr>key := Some k'\<rparr>, tr3)))
                        else (Inr (), self, tr3)))))"

section \<open>Logging: sinks and metrics of \<open>logging/_gax.py\<close>\<close>

text \<open>
  The messages \<open>LogSink\<close> and \<open>LogMetric\<close> have the string fields \<open>name\<close>, \<open>filter\<close> and
  \<open>destination\<close> or \<open>description\<close>.
\<close>

record LogSink =
  sink_name :: string
  sink_filter :: string
  sink_destination :: string

record LogMetric =
  metric_name :: string
  metric_filter :: string
  metric_description :: string

text \<open>The GAX stubs are external: each call answers a message or raises.\<close>

record sinks_gax_api =
  create_sink :: "string \<Rightarrow> LogSink \<Rightarrow> exn + LogSink"
  get_sink :: "string \<Rightarrow> exn + LogSink"
  update_sink :: "string \<Rightarrow> LogSink \<Rightarrow> exn + LogSink"

record metrics_gax_api =
  update_log_metric :: "string \<Rightarrow> LogMetric \<Rightarrow> exn + LogMetric"

definition log_sink_pb_to_mapping :: "LogSink \<Rightarrow> pydict" where
  "log_sink_pb_to_mapping sink_pb =
     [(''name'', PyStr (sink_name sink_pb)),
      (''destination'', PyStr (sink_destination sink_pb)),
      (''filter'', PyStr (sink_filter sink_pb))]"

definition log_metric_pb_to_mapping :: "LogMetric \<Rightarrow> pydict" where
  "log_metric_pb_to_mapping metric_pb =
     [(''name'', PyStr (metric_name metric_pb)),
      (''description'', PyStr (metric_description metric_pb)),
      (''filter'', PyStr (metric_filter metric_pb))]"

text \<open>
  \<open>except GaxError as exc: if exc_to_code(exc.cause) == code: raise translated; raise\<close>.
  An exception that is not a \<open>GaxError\<close> is not caught.
\<close>

fun translate_gax_error :: "StatusCode \<Rightarrow> exn \<Rightarrow> exn \<Rightarrow> exn" where
  "translate_gax_error code translated (GaxError c) =
     (if exc_to_code c = Some code then translated else GaxError c)"
| "translate_gax_error code translated e = e"

definition sink_create :: "sinks_gax_api \<Rightarrow> string \<Rightarrow> string \<Rightarrow> string \<Rightarrow> string \<Rightarrow> exn + unit" where
  "sink_create gax_api project name filter' destination =
     (let parent = ''projects/'' @ project;
          sink_pb = \<lparr>sink_name = name, sink_filter = filter', sink_destination = destination\<rparr>
      in case create_sink gax_api parent sink_pb of
           Inl exc \<Rightarrow>
             Inl (translate_gax_error FAILED_PRECONDITION
                    (Conflict (''projects/'' @ project @ ''/sinks/'' @ name)) exc)
         | Inr _ \<Rightarrow> Inr ())"

definition sink_get :: "sinks_gax_api \<Rightarrow> string \<Rightarrow> string \<Rightarrow> exn + pydict" where
  "sink_get gax_api project name =
     (let path = ''projects/'' @ project @ ''/sinks/'' @ name
      in case get_sink gax_api path of
           Inl exc \<Rightarrow> Inl (translate_gax_error NOT_FOUND (NotFound path) exc)
         | Inr sink_pb \<Rightarrow> Inr (log_sink_pb_to_mapping sink_pb))"

definition sink_update :: "sinks_gax_api \<Rightarrow> string \<Rightarrow> string \<Rightarrow> string \<Rightarrow> string \<Rightarrow> exn + pydict" where
  "sink_update gax_api project name filter' destination =
     (let path = ''projects/'' @ project @ ''/sinks/'' @ name;
          sink_pb = \<lparr>sink_name = path, sink_filter = filter', sink_destination = destination\<rparr>
      in case update_sink gax_api path sink_pb of
           Inl exc \<Rightarrow> Inl (translate_gax_error NOT_FOUND (NotFound path) exc)
         | Inr _ \<Rightarrow> Inr (log_sink_pb_to_mapping sink_pb))"

definition metric_update :: "metrics_gax_api \<Rightarrow> string \<Rightarrow> string \<Rightarrow> string \<Rightarrow> string \<Rightarrow> exn + pydict" where
  "metric_update gax_api project name filter' description =
     (let path = ''projects/'' @ project @ ''/metrics/'' @ name;
          metric_pb = \<lparr>metric_name = path, metric_filter = filter',
                       metric_description = description\<rparr>
      in case update_log_metric gax_api path metric_pb of
           Inl exc \<Rightarrow> Inl (translate_gax_error NOT_FOUND (NotFound path) exc)
         | Inr _ \<Rightarrow> Inr (log_metric_pb_to_mapping metric_pb))"

section \<open>Logging: Python operations on values\<close>

definition bind_exn :: "exn + 'a \<Rightarrow> ('a \<Rightarrow> exn + 'b) \<Rightarrow> exn + 'b" where
  "bind_exn m f = (case m of Inl e \<Rightarrow> Inl e | Inr x \<Rightarrow> f x)"

definition map_exn :: "('a \<Rightarrow> 'b) \<Rightarrow> exn + 'a \<Rightarrow> exn + 'b" where
  "map_exn f m = (case m of Inl e \<Rightarrow> Inl e | Inr x \<Rightarrow> Inr (f x))"

text \<open>A list or dictionary comprehension: the first element that raises ends it.\<close>

fun comprehension :: "(exn + 'a) list \<Rightarrow> exn + 'a list" where
  "comprehension [] = Inr []"
| "comprehension (x # xs) =
     (case x of
        Inl e \<Rightarrow> Inl e
      | Inr v \<Rightarrow> (case comprehension xs of Inl e \<Rightarrow> Inl e | Inr vs \<Rightarrow> Inr (v # vs)))"

text \<open>
  \<open>key in info\<close> for a string \<open>key\<close>: membership in a dictionary, substring of a string,
  element of a list; the other values are not iterable.
\<close>

fun py_contains :: "pyval \<Rightarrow> string \<Rightarrow> exn + bool" where
  "py_contains (PyDict d) k = Inr (map_of d k \<noteq> None)"
| "py_contains (PyStr s) k = Inr (sublist k s)"
| "py_contains (PyList xs) k = Inr (PyStr k \<in> set xs)"
| "py_contains _ k = Inl TypeError"

text \<open>\<open>info[key]\<close> for a string \<open>key\<close>: only a dictionary can be indexed by a string.\<close>

fun py_getitem :: "pyval \<Rightarrow> string \<Rightarrow> exn + pyval" where
  "py_getitem (PyDict d) k = (case map_of d k of None \<Rightarrow> Inl (KeyError k) | Some v \<Rightarrow> Inr v)"
| "py_getitem _ k = Inl TypeError"

text \<open>\<open>info.items()\<close>: only a dictionary has the method.\<close>

fun py_items :: "pyval \<Rightarrow> exn + pydict" where
  "py_items (PyDict d) = Inr d"
| "py_items _ = Inl AttributeError"

section \<open>Logging: the protocol messages\<close>

text \<open>
  The messages come from the protocol-buffer library and its generated modules. Their
  behaviour is modelled as far as \<open>_gax.py\<close> relies on it:
  \<^item> a string field takes a \<open>str\<close>; an integer or enum field takes an \<open>int\<close> or a \<open>bool\<close>
    (which counts as 0 or 1) within the field's range; a bool field takes a \<open>bool\<close> or
    an \<open>int\<close> (true when it is not 0); any other Python type raises \<open>TypeError\<close>, an
    integer out of range \<open>ValueError\<close>;
  \<^item> reading an unset field gives its default;
  \<^item> the members of a \<open>oneof\<close> exclude each other: writing one clears the others, and
    \<open>HasField\<close> and \<open>WhichOneof\<close> tell which one is set;
  \<^item> a map field is a dictionary of its entries.
\<close>

text \<open>The decimal text of an integer, as \<open>'%d' % n\<close> gives it.\<close>

fun digits :: "nat \<Rightarrow> string" where
  "digits n =
     (if n < 10 then [char_of (48 + n)] else digits (n div 10) @ [char_of (48 + n mod 10)])"

declare digits.simps [simp del]

definition str_of_int :: "int \<Rightarrow> string" where
  "str_of_int i = (if i < 0 then CHR ''-'' # digits (nat (- i)) else digits (nat i))"

definition check_string :: "pyval \<Rightarrow> exn + string" where
  "check_string v = (case v of PyStr s \<Rightarrow> Inr s | _ \<Rightarrow> Inl TypeError)"

definition check_bool :: "pyval \<Rightarrow> exn + bool" where
  "check_bool v =
     (case v of PyBool b \<Rightarrow> Inr b | PyInt n \<Rightarrow> Inr (n \<noteq> 0) | _ \<Rightarrow> Inl TypeError)"

text \<open>The integer a value counts as, if it is integral: an \<open>int\<close>, or a \<open>bool\<close>.\<close>

definition integral_value :: "pyval \<Rightarrow> int option" where
  "integral_value v =
     (case v of PyInt n \<Rightarrow> Some n | PyBool b \<Rightarrow> Some (if b then 1 else 0) | _ \<Rightarrow> None)"

definition check_int :: "nat \<Rightarrow> pyval \<Rightarrow> exn + int" where
  "check_int bits v =
     (case integral_value v of
        None \<Rightarrow> Inl TypeError
      | Some n \<Rightarrow>
          if - (2 ^ (bits - 1)) \<le> n \<and> n < 2 ^ (bits - 1) then Inr n
          else Inl (ValueError (''Value out of range: '' @ str_of_int n)))"

subsection \<open>\<open>google.protobuf.Value\<close> and \<open>Struct\<close>\<close>

text \<open>
  A \<open>Value\<close> is the \<open>oneof kind\<close> of \<open>struct.proto\<close>: unset, or one of \<open>null_value\<close>,
  \<open>number_value\<close>, \<open>string_value\<close>, \<open>bool_value\<close>, \<open>struct_value\<close>, \<open>list_value\<close>. A
  \<open>Struct\<close> is its map \<open>fields\<close>. Reading \<open>number_value\<close> gives a Python number: a \<open>float\<close>,
  or, where the library keeps the object it was given, the \<open>int\<close> that was assigned.
\<close>

datatype value_pb =
    KindUnset
  | NullValue
  | NumberValue pyval
  | StringValue string
  | BoolValue bool
  | StructValue "(string \<times> value_pb) list"
  | ListValue "value_pb list"

type_synonym struct_pb = "(string \<times> value_pb) list"

fun WhichOneof :: "value_pb \<Rightarrow> string option" where
  "WhichOneof KindUnset = None"
| "WhichOneof NullValue = Some ''null_value''"
| "WhichOneof (NumberValue _) = Some ''number_value''"
| "WhichOneof (StringValue _) = Some ''string_value''"
| "WhichOneof (BoolValue _) = Some ''bool_value''"
| "WhichOneof (StructValue _) = Some ''struct_value''"
| "WhichOneof (ListValue _) = Some ''list_value''"

fun string_value :: "value_pb \<Rightarrow> string" where
  "string_value (StringValue s) = s"
| "string_value _ = []"

fun bool_value :: "value_pb \<Rightarrow> bool" where
  "bool_value (BoolValue b) = b"
| "bool_value _ = False"

fun number_value :: "value_pb \<Rightarrow> pyval" where
  "number_value (NumberValue x) = x"
| "number_value _ = PyFloat 0"

fun list_value :: "value_pb \<Rightarrow> value_pb list" where
  "list_value (ListValue vs) = vs"
| "list_value _ = []"

fun struct_value :: "value_pb \<Rightarrow> struct_pb" where
  "struct_value (StructValue fs) = fs"
| "struct_value _ = []"

text \<open>
  Assignment into a \<open>Struct\<close>, \<open>struct_pb[key] = value\<close>, converts the Python value to a
  \<open>Value\<close> with the library's \<open>_SetStructValue\<close> and stores it in \<open>fields\<close> under the key.
  Which Python values the conversion accepts, and what it stores for a number, differs
  between releases of the library: the conversion \<open>S\<close> is a parameter.
\<close>

definition Struct_setitem ::
  "(pyval \<Rightarrow> exn + value_pb) \<Rightarrow> struct_pb \<Rightarrow> string \<Rightarrow> pyval \<Rightarrow> exn + struct_pb" where
  "Struct_setitem S fs k value = map_exn (\<lambda>v. AList.update k v fs) (S value)"

subsection \<open>\<open>LogSeverity\<close>\<close>

text \<open>The enum of \<open>google/logging/type/log_severity.proto\<close>.\<close>

definition LogSeverity_values :: "(string \<times> int) list" where
  "LogSeverity_values =
     [(''DEFAULT'', 0), (''DEBUG'', 100), (''INFO'', 200), (''NOTICE'', 300),
      (''WARNING'', 400), (''ERROR'', 500), (''CRITICAL'', 600), (''ALERT'', 700),
      (''EMERGENCY'', 800)]"

definition LogSeverity_Value :: "string \<Rightarrow> exn + int" where
  "LogSeverity_Value name =
     (case map_of LogSeverity_values name of
        None \<Rightarrow> Inl (ValueError (''Enum LogSeverity has no value defined for name '' @ name))
      | Some n \<Rightarrow> Inr n)"

definition LogSeverity_Name :: "int \<Rightarrow> exn + string" where
  "LogSeverity_Name number =
     (case map_of (map prod.swap LogSeverity_values) number of
        None \<Rightarrow>
          Inl (ValueError (''Enum LogSeverity has no name defined for value '' @
                 str_of_int number))
      | Some name \<Rightarrow> Inr name)"

subsection \<open>\<open>LogEntry\<close>\<close>

record MonitoredResource =
  resource_type :: string
  resource_labels :: "(string \<times> string) list"

record Timestamp =
  seconds :: int
  nanos :: int

record HttpRequest =
  request_method :: string
  request_url :: string
  status :: int
  referer :: string
  user_agent :: string
  cache_hit :: bool
  request_size :: int
  response_size :: int
  remote_ip :: string

record LogEntryOperation =
  op_producer :: string
  op_id :: string
  op_first :: bool
  op_last :: bool

text \<open>The \<open>oneof payload\<close> of a log entry.\<close>

datatype payload_oneof =
    PayloadUnset
  | ProtoPayload any_pb
  | TextPayload string
  | JsonPayload struct_pb

text \<open>
  The decoder tests \<open>entry_pb.http_request\<close> and \<open>entry_pb.operation\<close> for truth. A
  message object is true; \<open>None\<close> stands for a false value in that place, which an
  entry built by \<open>LogEntry()\<close> never holds.
\<close>

record LogEntry =
  log_name :: string
  resource :: MonitoredResource
  severity :: int
  insert_id :: string
  timestamp :: Timestamp
  labels :: "(string \<times> string) list"
  payload :: payload_oneof
  http_request :: "HttpRequest option"
  operation :: "LogEntryOperation option"

definition HttpRequest_init :: HttpRequest where
  "HttpRequest_init =
     \<lparr>request_method = [], request_url = [], status = 0, referer = [], user_agent = [],
      cache_hit = False, request_size = 0, response_size = 0, remote_ip = []\<rparr>"

definition LogEntryOperation_init :: LogEntryOperation where
  "LogEntryOperation_init = \<lparr>op_producer = [], op_id = [], op_first = False, op_last = False\<rparr>"

definition LogEntry_init :: LogEntry where
  "LogEntry_init =
     \<lparr>log_name = [], resource = \<lparr>resource_type = [], resource_labels = []\<rparr>, severity = 0,
      insert_id = [], timestamp = \<lparr>seconds = 0, nanos = 0\<rparr>, labels = [],
      payload = PayloadUnset, http_request = Some HttpRequest_init,
      operation = Some LogEntryOperation_init\<rparr>"

text \<open>\<open>HasField\<close> for the members of \<open>payload\<close>, the only names the module asks for.\<close>

definition HasField :: "LogEntry \<Rightarrow> string \<Rightarrow> bool" where
  "HasField entry_pb name =
     (case payload entry_pb of
        PayloadUnset \<Rightarrow> False
      | ProtoPayload _ \<Rightarrow> name = ''proto_payload''
      | TextPayload _ \<Rightarrow> name = ''text_payload''
      | JsonPayload _ \<Rightarrow> name = ''json_payload'')"

definition text_payload :: "LogEntry \<Rightarrow> string" where
  "text_payload entry_pb = (case payload entry_pb of TextPayload s \<Rightarrow> s | _ \<Rightarrow> [])"

definition json_payload :: "LogEntry \<Rightarrow> struct_pb" where
  "json_payload entry_pb = (case payload entry_pb of JsonPayload fs \<Rightarrow> fs | _ \<Rightarrow> [])"

definition proto_payload :: "LogEntry \<Rightarrow> any_pb" where
  "proto_payload entry_pb = (case payload entry_pb of ProtoPayload a \<Rightarrow> a | _ \<Rightarrow> Any_pb [] [])"

text \<open>A map field of strings, seen as a Python value.\<close>

definition string_map :: "(string \<times> string) list \<Rightarrow> pyval" where
  "string_map m = PyDict (map (\<lambda>kv. (fst kv, PyStr (snd kv))) m)"

text \<open>
  The helpers of \<open>google.cloud._helpers\<close>, the JSON parser of the protocol-buffer library
  (\<open>Parse(json.dumps(v), any_pb)\<close>) and its conversion of a Python value to a \<open>Value\<close>
  (\<open>_SetStructValue\<close>) are outside the module: they are parameters.
\<close>

record externals =
  datetime_to_pb_timestamp :: "pyval \<Rightarrow> exn + Timestamp"
  pb_timestamp_to_rfc3339 :: "Timestamp \<Rightarrow> exn + string"
  Parse_json_dumps :: "pyval \<Rightarrow> exn + any_pb"
  SetStructValue :: "pyval \<Rightarrow> exn + value_pb"

section \<open>Logging: message to mapping\<close>

definition mon_resource_pb_to_mapping :: "MonitoredResource \<Rightarrow> pydict" where
  "mon_resource_pb_to_mapping resource_pb =
     (let mapping = [(''type'', PyStr (resource_type resource_pb))]
      in if resource_labels resource_pb \<noteq> []
         then AList.update ''labels'' (string_map (resource_labels resource_pb)) mapping
         else mapping)"

lemma list_value_size: "x \<in> set (list_value v) \<Longrightarrow> size x < size v"
  by (cases v) (auto simp: less_Suc_eq_le size_list_estimation')

lemma struct_value_size:
  "size_list (\<lambda>kv. size (snd kv)) (struct_value v) \<le> size v"
proof (cases v)
  case (StructValue fs)
  have "size_list (\<lambda>kv. size (snd kv)) fs \<le> size_list (size_prod (\<lambda>_. 0) size) fs"
    by (induction fs) auto
  with StructValue show ?thesis by simp
qed auto

lemma field_size: "kv \<in> set fs \<Longrightarrow> size (snd kv) < size_list (\<lambda>kv. size (snd kv)) fs"
  by (induction fs) auto

function value_pb_to_value :: "value_pb \<Rightarrow> exn + pyval"
  and struct_pb_to_mapping :: "struct_pb \<Rightarrow> exn + pyval" where
  "value_pb_to_value value_pb =
     (let kind = WhichOneof value_pb in
      if kind = None then Inr PyNone
      else if kind = Some ''string_value'' then Inr (PyStr (string_value value_pb))
      else if kind = Some ''bool_value'' then Inr (PyBool (bool_value value_pb))
      else if kind = Some ''number_value'' then Inr (number_value value_pb)
      else if kind = Some ''list_value'' then
        map_exn PyList (comprehension (map value_pb_to_value (list_value value_pb)))
      else if kind = Some ''struct_value'' then struct_pb_to_mapping (struct_value value_pb)
      else Inl (ValueError (''Value protobuf had unknown kind: '' @ the kind)))"
| "struct_pb_to_mapping struct_fields =
     map_exn PyDict
       (comprehension
          (map (\<lambda>kv. map_exn (Pair (fst kv)) (value_pb_to_value (snd kv))) struct_fields))"
  by pat_completeness auto
termination
proof (relation "measure (\<lambda>x. case x of
                               Inl v \<Rightarrow> 2 * size v + 2
                             | Inr fs \<Rightarrow> 2 * size_list (\<lambda>kv. size (snd kv)) fs + 1)",
       goal_cases)
  case 1
  show ?case by simp
next
  case (2 value_pb kind x)
  then show ?case by (auto dest: list_value_size)
next
  case (3 value_pb kind)
  show ?case using struct_value_size [of value_pb] by simp
next
  case (4 fs kv)
  then show ?case using field_size [of kv fs] by simp
qed

declare value_pb_to_value.simps [simp del] struct_pb_to_mapping.simps [simp del]

definition http_request_to_mapping :: "HttpRequest \<Rightarrow> pydict" where
  "http_request_to_mapping request =
     [(''requestMethod'', PyStr (request_method request)),
      (''requestUrl'', PyStr (request_url request)),
      (''status'', PyInt (status request)),
      (''referer'', PyStr (referer request)),
      (''userAgent'', PyStr (user_agent request)),
      (''cacheHit'', PyBool (cache_hit request)),
      (''requestSize'', PyInt (request_size request)),
      (''responseSize'', PyInt (response_size request)),
      (''remoteIp'', PyStr (remote_ip request))]"

definition operation_to_mapping :: "LogEntryOperation \<Rightarrow> pydict" where
  "operation_to_mapping operation_pb =
     [(''producer'', PyStr (op_producer operation_pb)),
      (''id'', PyStr (op_id operation_pb)),
      (''first'', PyBool (op_first operation_pb)),
      (''last'', PyBool (op_last operation_pb))]"

definition log_entry_pb_to_mapping :: "externals \<Rightarrow> LogEntry \<Rightarrow> exn + pydict" where
  "log_entry_pb_to_mapping X entry_pb =
     bind_exn (LogSeverity_Name (severity entry_pb)) (\<lambda>severity_name.
     bind_exn (pb_timestamp_to_rfc3339 X (timestamp entry_pb)) (\<lambda>rfc3339.
     let mapping =
           [(''logName'', PyStr (log_name entry_pb)),
            (''resource'', PyDict (mon_resource_pb_to_mapping (resource entry_pb))),
            (''severity'', PyStr severity_name),
            (''insertId'', PyStr (insert_id entry_pb)),
            (''timestamp'', PyStr rfc3339),
            (''labels'', string_map (labels entry_pb))];
         mapping =
           (if HasField entry_pb ''text_payload''
            then AList.update ''textPayload'' (PyStr (text_payload entry_pb)) mapping
            else mapping)
     in bind_exn
          (if HasField entry_pb ''json_payload''
           then map_exn (\<lambda>j. AList.update ''jsonPayload'' j mapping)
                  (struct_pb_to_mapping (json_payload entry_pb))
           else Inr mapping) (\<lambda>mapping.
     let mapping =
           (if HasField entry_pb ''proto_payload''
            then AList.update ''protoPayload'' (PyMessage (proto_payload entry_pb)) mapping
            else mapping);
         mapping =
           (case http_request entry_pb of
              None \<Rightarrow> mapping
            | Some request \<Rightarrow>
                AList.update ''httpRequest'' (PyDict (http_request_to_mapping request)) mapping);
         mapping =
           (case operation entry_pb of
              None \<Rightarrow> mapping
            | Some operation_pb \<Rightarrow>
                AList.update ''operation'' (PyDict (operation_to_mapping operation_pb)) mapping)
     in Inr mapping)))"

section \<open>Logging: mapping to message\<close>

definition optional_request_keys :: "(string \<times> string) list" where
  "optional_request_keys =
     [(''requestMethod'', ''request_method''),
      (''requestUrl'', ''request_url''),
      (''status'', ''status''),
      (''referer'', ''referer''),
      (''userAgent'', ''user_agent''),
      (''cacheHit'', ''cache_hit''),
      (''requestSize'', ''request_size''),
      (''responseSize'', ''response_size''),
      (''remoteIp'', ''remote_ip'')]"

text \<open>\<open>setattr(request, pb_name, value)\<close> on an \<open>HttpRequest\<close>.\<close>

definition setattr_HttpRequest :: "HttpRequest \<Rightarrow> string \<Rightarrow> pyval \<Rightarrow> exn + HttpRequest" where
  "setattr_HttpRequest request pb_name value =
     (if pb_name = ''request_method''
      then map_exn (\<lambda>s. request\<lparr>request_method := s\<rparr>) (check_string value)
      else if pb_name = ''request_url''
      then map_exn (\<lambda>s. request\<lparr>request_url := s\<rparr>) (check_string value)
      else if pb_name = ''status''
      then map_exn (\<lambda>n. request\<lparr>status := n\<rparr>) (check_int 32 value)
      else if pb_name = ''referer''
      then map_exn (\<lambda>s. request\<lparr>referer := s\<rparr>) (check_string value)
      else if pb_name = ''user_agent''
      then map_exn (\<lambda>s. request\<lparr>user_agent := s\<rparr>) (check_string value)
      else if pb_name = ''cache_hit''
      then map_exn (\<lambda>b. request\<lparr>cache_hit := b\<rparr>) (check_bool value)
      else if pb_name = ''request_size''
      then map_exn (\<lambda>n. request\<lparr>request_size := n\<rparr>) (check_int 64 value)
      else if pb_name = ''response_size''
      then map_exn (\<lambda>n. request\<lparr>response_size := n\<rparr>) (check_int 64 value)
      else if pb_name = ''remote_ip''
      then map_exn (\<lambda>s. request\<lparr>remote_ip := s\<rparr>) (check_string value)
      else Inl AttributeError)"

text \<open>
  \<open>for key, pb_name in keys.items(): if key in info: setattr(request, pb_name, info[key])\<close>,
  in the order the dictionary literal is written.
\<close>

fun http_request_loop :: "(string \<times> string) list \<Rightarrow> pyval \<Rightarrow> HttpRequest \<Rightarrow> exn + HttpRequest" where
  "http_request_loop [] info request = Inr request"
| "http_request_loop (item # rest) info request =
     (case py_contains info (fst item) of
        Inl e \<Rightarrow> Inl e
      | Inr present \<Rightarrow>
          if present
          then (case py_getitem info (fst item) of
                  Inl e \<Rightarrow> Inl e
                | Inr value \<Rightarrow>
                    (case setattr_HttpRequest request (snd item) value of
                       Inl e \<Rightarrow> Inl e
                     | Inr request' \<Rightarrow> http_request_loop rest info request'))
          else http_request_loop rest info request)"

definition http_request_mapping_to_pb :: "pyval \<Rightarrow> HttpRequest \<Rightarrow> exn + HttpRequest" where
  "http_request_mapping_to_pb info request =
     http_request_loop optional_request_keys info request"

definition log_operation_mapping_to_pb :: "pyval \<Rightarrow> LogEntryOperation \<Rightarrow> exn + LogEntryOperation" where
  "log_operation_mapping_to_pb info operation_pb0 =
     bind_exn (py_getitem info ''producer'') (\<lambda>value.
     bind_exn (check_string value) (\<lambda>s.
     let operation_pb1 = operation_pb0\<lparr>op_producer := s\<rparr> in
     bind_exn (py_getitem info ''id'') (\<lambda>value.
     bind_exn (check_string value) (\<lambda>s.
     let operation_pb2 = operation_pb1\<lparr>op_id := s\<rparr> in
     bind_exn (py_contains info ''first'') (\<lambda>present.
     bind_exn
       (if present
        then bind_exn (py_getitem info ''first'') (\<lambda>value.
             map_exn (\<lambda>b. operation_pb2\<lparr>op_first := b\<rparr>) (check_bool value))
        else Inr operation_pb2) (\<lambda>operation_pb3.
     bind_exn (py_contains info ''last'') (\<lambda>present.
     if present
     then bind_exn (py_getitem info ''last'') (\<lambda>value.
          map_exn (\<lambda>b. operation_pb3\<lparr>op_last := b\<rparr>) (check_bool value))
     else Inr operation_pb3)))))))"

definition optional_scalar_keys :: "(string \<times> string) list" where
  "optional_scalar_keys =
     [(''logName'', ''log_name''),
      (''insertId'', ''insert_id''),
      (''textPayload'', ''text_payload'')]"

text \<open>
  \<open>setattr(entry_pb, pb_name, value)\<close> on a \<open>LogEntry\<close>; \<open>text_payload\<close> is a member of the
  \<open>oneof payload\<close>.
\<close>

definition setattr_LogEntry :: "LogEntry \<Rightarrow> string \<Rightarrow> pyval \<Rightarrow> exn + LogEntry" where
  "setattr_LogEntry entry_pb pb_name value =
     (if pb_name = ''log_name''
      then map_exn (\<lambda>s. entry_pb\<lparr>log_name := s\<rparr>) (check_string value)
      else if pb_name = ''insert_id''
      then map_exn (\<lambda>s. entry_pb\<lparr>insert_id := s\<rparr>) (check_string value)
      else if pb_name = ''text_payload''
      then map_exn (\<lambda>s. entry_pb\<lparr>payload := TextPayload s\<rparr>) (check_string value)
      else Inl AttributeError)"

fun scalar_keys_loop :: "(string \<times> string) list \<Rightarrow> pydict \<Rightarrow> LogEntry \<Rightarrow> exn + LogEntry" where
  "scalar_keys_loop [] mapping entry_pb = Inr entry_pb"
| "scalar_keys_loop (item # rest) mapping entry_pb =
     (case map_of mapping (fst item) of
        None \<Rightarrow> scalar_keys_loop rest mapping entry_pb
      | Some value \<Rightarrow>
          (case setattr_LogEntry entry_pb (snd item) value of
             Inl e \<Rightarrow> Inl e
           | Inr entry_pb' \<Rightarrow> scalar_keys_loop rest mapping entry_pb'))"

text \<open>\<open>for key, value in mapping['labels'].items(): entry_pb.labels[key] = value\<close>\<close>

fun labels_loop :: "pydict \<Rightarrow> LogEntry \<Rightarrow> exn + LogEntry" where
  "labels_loop [] entry_pb = Inr entry_pb"
| "labels_loop (item # rest) entry_pb =
     (case check_string (snd item) of
        Inl e \<Rightarrow> Inl e
      | Inr s \<Rightarrow>
          labels_loop rest (entry_pb\<lparr>labels := AList.update (fst item) s (labels entry_pb)\<rparr>))"

text \<open>
  \<open>for key, value in mapping['jsonPayload'].items(): entry_pb.json_payload[key] = value\<close>.
  The assignment makes \<open>json_payload\<close> the member of \<open>payload\<close> that is set.
\<close>

fun json_payload_loop ::
  "(pyval \<Rightarrow> exn + value_pb) \<Rightarrow> pydict \<Rightarrow> LogEntry \<Rightarrow> exn + LogEntry" where
  "json_payload_loop S [] entry_pb = Inr entry_pb"
| "json_payload_loop S (item # rest) entry_pb =
     (case Struct_setitem S (json_payload entry_pb) (fst item) (snd item) of
        Inl e \<Rightarrow> Inl e
      | Inr fs \<Rightarrow> json_payload_loop S rest (entry_pb\<lparr>payload := JsonPayload fs\<rparr>))"

text \<open>The statements of \<open>_log_entry_mapping_to_pb\<close>, one per key, in the order of the source.\<close>

definition set_resource :: "pydict \<Rightarrow> LogEntry \<Rightarrow> exn + LogEntry" where
  "set_resource mapping entry_pb =
     (case map_of mapping ''resource'' of
        None \<Rightarrow> Inr entry_pb
      | Some r \<Rightarrow>
          bind_exn (py_getitem r ''type'') (\<lambda>value.
          map_exn (\<lambda>s. entry_pb\<lparr>resource := (resource entry_pb)\<lparr>resource_type := s\<rparr>\<rparr>)
            (check_string value)))"

definition set_severity :: "pydict \<Rightarrow> LogEntry \<Rightarrow> exn + LogEntry" where
  "set_severity mapping entry_pb =
     (case map_of mapping ''severity'' of
        None \<Rightarrow> Inr entry_pb
      | Some sev \<Rightarrow>
          bind_exn
            (case sev of
               PyStr name \<Rightarrow> map_exn PyInt (LogSeverity_Value name)
             | _ \<Rightarrow> Inr sev) (\<lambda>sev.
          map_exn (\<lambda>n. entry_pb\<lparr>severity := n\<rparr>) (check_int 32 sev)))"

definition set_timestamp :: "externals \<Rightarrow> pydict \<Rightarrow> LogEntry \<Rightarrow> exn + LogEntry" where
  "set_timestamp X mapping entry_pb =
     (case map_of mapping ''timestamp'' of
        None \<Rightarrow> Inr entry_pb
      | Some when \<Rightarrow>
          map_exn (\<lambda>t. entry_pb\<lparr>timestamp := t\<rparr>) (datetime_to_pb_timestamp X when))"

definition set_labels :: "pydict \<Rightarrow> LogEntry \<Rightarrow> exn + LogEntry" where
  "set_labels mapping entry_pb =
     (case map_of mapping ''labels'' of
        None \<Rightarrow> Inr entry_pb
      | Some l \<Rightarrow> bind_exn (py_items l) (\<lambda>kvs. labels_loop kvs entry_pb))"

definition set_json_payload :: "externals \<Rightarrow> pydict \<Rightarrow> LogEntry \<Rightarrow> exn + LogEntry" where
  "set_json_payload X mapping entry_pb =
     (case map_of mapping ''jsonPayload'' of
        None \<Rightarrow> Inr entry_pb
      | Some j \<Rightarrow>
          bind_exn (py_items j) (\<lambda>kvs. json_payload_loop (SetStructValue X) kvs entry_pb))"

definition set_proto_payload :: "externals \<Rightarrow> pydict \<Rightarrow> LogEntry \<Rightarrow> exn + LogEntry" where
  "set_proto_payload X mapping entry_pb =
     (case map_of mapping ''protoPayload'' of
        None \<Rightarrow> Inr entry_pb
      | Some p \<Rightarrow> map_exn (\<lambda>a. entry_pb\<lparr>payload := ProtoPayload a\<rparr>) (Parse_json_dumps X p))"

definition set_http_request :: "pydict \<Rightarrow> LogEntry \<Rightarrow> exn + LogEntry" where
  "set_http_request mapping entry_pb =
     (case map_of mapping ''httpRequest'' of
        None \<Rightarrow> Inr entry_pb
      | Some info \<Rightarrow>
          (case http_request entry_pb of
             None \<Rightarrow> Inl AttributeError
           | Some request \<Rightarrow>
               map_exn (\<lambda>r. entry_pb\<lparr>http_request := Some r\<rparr>)
                 (http_request_mapping_to_pb info request)))"

definition set_operation :: "pydict \<Rightarrow> LogEntry \<Rightarrow> exn + LogEntry" where
  "set_operation mapping entry_pb =
     (case map_of mapping ''operation'' of
        None \<Rightarrow> Inr entry_pb
      | Some info \<Rightarrow>
          (case operation entry_pb of
             None \<Rightarrow> Inl AttributeError
           | Some op \<Rightarrow>
               map_exn (\<lambda>r. entry_pb\<lparr>operation := Some r\<rparr>)
                 (log_operation_mapping_to_pb info op)))"

definition log_entry_mapping_to_pb :: "externals \<Rightarrow> pydict \<Rightarrow> exn + LogEntry" where
  "log_entry_mapping_to_pb X mapping =
     bind_exn (scalar_keys_loop optional_scalar_keys mapping LogEntry_init) (\<lambda>entry_pb.
     bind_exn (set_resource mapping entry_pb) (\<lambda>entry_pb.
     bind_exn (set_severity mapping entry_pb) (\<lambda>entry_pb.
     bind_exn (set_timestamp X mapping entry_pb) (\<lambda>entry_pb.
     bind_exn (set_labels mapping entry_pb) (\<lambda>entry_pb.
     bind_exn (set_json_payload X mapping entry_pb) (\<lambda>entry_pb.
     bind_exn (set_proto_payload X mapping entry_pb) (\<lambda>entry_pb.
     bind_exn (set_http_request mapping entry_pb) (\<lambda>entry_pb.
     set_operation mapping entry_pb))))))))"

section \<open>Example environments\<close>

text \<open>
  Concrete keys, connections and stubs on which the theorems below are instantiated. A key
  is a kind with an optional id; it is partial when it has no id.
\<close>

definition example_Key_class :: "(string \<times> int option, string \<times> int option) Key_class" where
  "example_Key_class =
     \<lparr>dataset_id = (\<lambda>k. ''dataset''),
      to_protobuf = (\<lambda>k. k),
      is_partial = (\<lambda>k. snd k = None),
      completed_key = (\<lambda>k i. if snd k = None then Inr (fst k, Some i)
                              else Inl (ValueError ''Only a partial key can be completed.''))\<rparr>"

definition example_Connection :: "bool \<Rightarrow> nat option \<Rightarrow> (string \<times> int option, nat) Connection" where
  "example_Connection assigned txn =
     \<lparr>save_entity = (\<lambda>d k props excl. Inr (assigned, 1234)), transaction = txn\<rparr>"

definition example_Entity :: "(string \<times> int option) Entity" where
  "example_Entity =
     \<lparr>key = Some (''Kind'', None), items = [(''age'', PyInt 20)],
      exclude_from_indexes_field = {''age''}\<rparr>"

definition example_sinks_api :: "StatusCode \<Rightarrow> sinks_gax_api" where
  "example_sinks_api code =
     \<lparr>create_sink = (\<lambda>parent pb. Inl (GaxError (RpcError code))),
      get_sink = (\<lambda>path. Inl (GaxError (RpcError code))),
      update_sink = (\<lambda>path pb. Inr \<lparr>sink_name = ''other'', sink_filter = ''x'',
                                      sink_destination = ''y''\<rparr>)\<rparr>"

definition example_metrics_api :: metrics_gax_api where
  "example_metrics_api =
     \<lparr>update_log_metric = (\<lambda>path pb. Inr \<lparr>metric_name = ''other'', metric_filter = ''x'',
                                            metric_description = ''y''\<rparr>)\<rparr>"

text \<open>
  Stand-ins for the helpers outside the module. The date/time \<open>PyDatetime us\<close> counts
  microseconds since the epoch, and only the epoch is rendered, which is all the examples
  need. The conversion to a \<open>Value\<close> is that of the library release of the module's time:
  \<open>None\<close>, \<open>bool\<close>, \<open>str\<close> and numbers are accepted, a number is kept as it is given, and
  anything else raises \<open>ValueError\<close>.
\<close>

definition example_externals :: externals where
  "example_externals =
     \<lparr>datetime_to_pb_timestamp =
        (\<lambda>v. case v of
               PyDatetime us \<Rightarrow> Inr \<lparr>seconds = us div 1000000, nanos = (us mod 1000000) * 1000\<rparr>
             | _ \<Rightarrow> Inl AttributeError),
      pb_timestamp_to_rfc3339 =
        (\<lambda>t. if seconds t = 0 \<and> nanos t = 0 then Inr ''1970-01-01T00:00:00.000000Z''
             else Inl (ValueError ''only the epoch is rendered'')),
      Parse_json_dumps =
        (\<lambda>v. case py_getitem v ''@type'' of
               Inr (PyStr u) \<Rightarrow> Inr (Any_pb u [])
             | _ \<Rightarrow> Inl (ValueError ''ParseError'')),
      SetStructValue =
        (\<lambda>v. case v of
               PyNone \<Rightarrow> Inr NullValue
             | PyBool b \<Rightarrow> Inr (BoolValue b)
             | PyStr s \<Rightarrow> Inr (StringValue s)
             | PyInt n \<Rightarrow> Inr (NumberValue (PyInt n))
             | PyFloat x \<Rightarrow> Inr (NumberValue (PyFloat x))
             | _ \<Rightarrow> Inl (ValueError ''Unexpected type''))\<rparr>"




section \<open>Notions used in the statements and proofs\<close>

text \<open>
  An optional entry of a dictionary: \<open>d[k] = v\<close> when there is a value.
\<close>

definition opt_update :: "string \<Rightarrow> pyval option \<Rightarrow> pydict \<Rightarrow> pydict" where
  "opt_update k vo al = (case vo of None \<Rightarrow> al | Some v \<Rightarrow> AList.update k v al)"

text \<open>
  The mapping the decoder returns, given the name of the severity, the rendered timestamp
  and the decoded JSON payload, if any.
\<close>

definition decoded_mapping ::
  "LogEntry \<Rightarrow> string \<Rightarrow> string \<Rightarrow> pyval option \<Rightarrow> pydict" where
  "decoded_mapping entry_pb name rfc jo =
     opt_update ''operation''
       (map_option (\<lambda>p. PyDict (operation_to_mapping p)) (operation entry_pb))
    (opt_update ''httpRequest''
       (map_option (\<lambda>r. PyDict (http_request_to_mapping r)) (http_request entry_pb))
    (opt_update ''protoPayload''
       (if HasField entry_pb ''proto_payload''
        then Some (PyMessage (proto_payload entry_pb)) else None)
    (opt_update ''jsonPayload'' jo
    (opt_update ''textPayload''
       (if HasField entry_pb ''text_payload''
        then Some (PyStr (text_payload entry_pb)) else None)
       [(''logName'', PyStr (log_name entry_pb)),
        (''resource'', PyDict (mon_resource_pb_to_mapping (resource entry_pb))),
        (''severity'', PyStr name),
        (''insertId'', PyStr (insert_id entry_pb)),
        (''timestamp'', PyStr rfc),
        (''labels'', string_map (labels entry_pb))]))))"


text \<open>
  What a scalar field gives back for the value assigned to it: the value itself, or, after
  the coercions of the field checks, the \<open>int\<close> a \<open>bool\<close> counts as (equal to it in
  Python) or the truth value of an \<open>int\<close>.
\<close>

definition readback :: "pyval \<Rightarrow> pyval \<Rightarrow> bool" where
  "readback v v' =
     (v' = v \<or>
      (case v of
         PyBool b \<Rightarrow> v' = PyInt (if b then 1 else 0)
       | PyInt n \<Rightarrow> v' = PyBool (n \<noteq> 0)
       | _ \<Rightarrow> False))"



section \<open>Datastore: properties of \<open>Entity.save\<close>\<close>

lemma example_save:
  "save example_Key_class (Some (example_Connection a t)) None example_Entity [] =
     (Inr (),
      (if a then example_Entity\<lparr>key := Some (''Kind'', Some 1234)\<rparr> else example_Entity),
      [Call_save_entity ''dataset'' (''Kind'', None) [(''age'', PyInt 20)] {''age''},
       Call_transaction] @
      (case t of None \<Rightarrow> [] | Some n \<Rightarrow> [Call_add_auto_id_entity n example_Entity]))"
  by (simp add: save_def must_key_def Let_def exclude_from_indexes_def example_Key_class_def
        example_Connection_def example_Entity_def connection_or_def split: option.splits)

text \<open>
  Claim C3. For every entity whose key is \<open>None\<close>, \<open>save()\<close> raises \<open>NoKey\<close>; no call is
  made on the connection (the trace is unchanged, so \<open>save_entity\<close> is never invoked), and
  the entity is unchanged.
\<close>

theorem save_without_key:
  "key self = None \<Longrightarrow> save K connection implicit self tr = (Inl NoKey, self, tr)"
  by (simp add: save_def must_key_def)

theorem save_without_key_witness:
  "key (Entity_init None [''a'']) = None \<and>
   save example_Key_class (Some (example_Connection True (Some 7))) None
     (Entity_init None [''a'']) [] = (Inl NoKey, Entity_init None [''a''], [])"
  using save_without_key [of "Entity_init None [''a'']" example_Key_class
          "Some (example_Connection True (Some 7))" None "[]"]
  by (simp add: Entity_init_def)

text \<open>
  Claim C4. For every entity with a key on which \<open>save()\<close> completes: if the connection
  reports an assigned id, the key afterwards is the original key completed with that id;
  if it reports none, the key is unchanged; in both cases the fields and the set of names
  excluded from indexes are unchanged.
\<close>

theorem save_key_update:
  assumes "key self = Some k"
    and "connection_or connection implicit = Some conn"
    and "save_entity conn (dataset_id K k) (to_protobuf K k) (items self)
           (exclude_from_indexes self) = Inr (assigned, new_id)"
    and "save K connection implicit self tr = (Inr (), self', tr')"
  shows "(assigned \<longrightarrow> (\<exists>k'. completed_key K k new_id = Inr k' \<and> key self' = Some k')) \<and>
         (\<not> assigned \<longrightarrow> key self' = key self) \<and>
         items self' = items self \<and>
         exclude_from_indexes self' = exclude_from_indexes self"
  using assms
  by (auto simp: save_def must_key_def Let_def exclude_from_indexes_def
           split: sum.splits option.splits if_splits)

theorem save_key_update_witness:
  "key example_Entity = Some (''Kind'', None) \<and>
   connection_or (Some (example_Connection True (Some 7))) None =
     Some (example_Connection True (Some 7)) \<and>
   save_entity (example_Connection True (Some 7)) ''dataset'' (''Kind'', None)
     (items example_Entity) (exclude_from_indexes example_Entity) = Inr (True, 1234) \<and>
   save example_Key_class (Some (example_Connection True (Some 7))) None example_Entity [] =
     (Inr (), example_Entity\<lparr>key := Some (''Kind'', Some 1234)\<rparr>,
      [Call_save_entity ''dataset'' (''Kind'', None) [(''age'', PyInt 20)] {''age''},
       Call_transaction, Call_add_auto_id_entity 7 example_Entity]) \<and>
   completed_key example_Key_class (''Kind'', None) 1234 = Inr (''Kind'', Some 1234) \<and>
   items (example_Entity\<lparr>key := Some (''Kind'', Some 1234)\<rparr>) = items example_Entity"
proof -
  have k: "key example_Entity = Some (''Kind'', None)"
    by (simp add: example_Entity_def)
  have c: "connection_or (Some (example_Connection True (Some 7))) None =
             Some (example_Connection True (Some 7))"
    by (simp add: connection_or_def)
  have r: "save_entity (example_Connection True (Some 7))
             (dataset_id example_Key_class (''Kind'', None))
             (to_protobuf example_Key_class (''Kind'', None))
             (items example_Entity) (exclude_from_indexes example_Entity) = Inr (True, 1234)"
    by (simp add: example_Connection_def)
  have s: "save example_Key_class (Some (example_Connection True (Some 7))) None
             example_Entity [] =
           (Inr (), example_Entity\<lparr>key := Some (''Kind'', Some 1234)\<rparr>,
            [Call_save_entity ''dataset'' (''Kind'', None) [(''age'', PyInt 20)] {''age''},
             Call_transaction, Call_add_auto_id_entity 7 example_Entity])"
    by (simp add: example_save)
  from save_key_update [OF k c r s] k c r s show ?thesis
    by (simp add: example_Key_class_def example_Connection_def)
qed

text \<open>
  Claim C6. For every entity with a key saved through a connection, the calls of
  \<open>add_auto_id_entity\<close> made by one \<open>save()\<close> are: exactly one, registering the entity with
  the connection's transaction, when \<open>save_entity\<close> has returned, there is a transaction and
  the key is partial; none when there is no transaction or the key is complete.
\<close>

theorem save_registers_once:
  assumes "key self = Some k"
    and "connection_or connection implicit = Some conn"
    and "save K connection implicit self tr = (res, self', tr')"
  shows "filter is_add_auto_id_entity tr' =
         filter is_add_auto_id_entity tr @
           (case save_entity conn (dataset_id K k) (to_protobuf K k) (items self)
                   (exclude_from_indexes self) of
              Inl _ \<Rightarrow> []
            | Inr _ \<Rightarrow>
                (case transaction conn of
                   None \<Rightarrow> []
                 | Some t \<Rightarrow> if is_partial K k then [Call_add_auto_id_entity t self] else []))"
  using assms
  by (auto simp: save_def must_key_def Let_def
           split: sum.splits option.splits if_splits prod.splits)

theorem save_registers_once_witness:
  "key example_Entity = Some (''Kind'', None) \<and>
   connection_or None (Some (example_Connection False (Some 7))) =
     Some (example_Connection False (Some 7)) \<and>
   save example_Key_class None (Some (example_Connection False (Some 7))) example_Entity [] =
     (Inr (), example_Entity,
      [Call_save_entity ''dataset'' (''Kind'', None) [(''age'', PyInt 20)] {''age''},
       Call_transaction, Call_add_auto_id_entity 7 example_Entity]) \<and>
   filter is_add_auto_id_entity
     [Call_save_entity ''dataset'' (''Kind'', None) [(''age'', PyInt 20)] {''age''},
      Call_transaction, Call_add_auto_id_entity (7::nat) example_Entity] =
     [Call_add_auto_id_entity 7 example_Entity]"
proof -
  have k: "key example_Entity = Some (''Kind'', None)"
    by (simp add: example_Entity_def)
  have c: "connection_or None (Some (example_Connection False (Some 7))) =
             Some (example_Connection False (Some 7))"
    by (simp add: connection_or_def)
  have s: "save example_Key_class None (Some (example_Connection False (Some 7)))
             example_Entity [] =
           (Inr (), example_Entity,
            [Call_save_entity ''dataset'' (''Kind'', None) [(''age'', PyInt 20)] {''age''},
             Call_transaction, Call_add_auto_id_entity 7 example_Entity])"
    by (simp add: save_def must_key_def Let_def exclude_from_indexes_def
          example_Key_class_def example_Connection_def example_Entity_def connection_or_def)
  from save_registers_once [OF k c s] k c s show ?thesis
    by (simp add: example_Key_class_def example_Connection_def)
qed

section \<open>Logging: properties of the sinks and metrics wrappers\<close>

text \<open>
  Claim C8. For every project and sink name: a transport error with status
  \<open>FAILED_PRECONDITION\<close> during \<open>sink_create\<close> becomes a \<open>Conflict\<close> carrying exactly
  \<open>projects/{project}/sinks/{name}\<close>; one with status \<open>NOT_FOUND\<close> during \<open>sink_get\<close> becomes
  a \<open>NotFound\<close> carrying the same path; a transport error with any other status is raised
  again unchanged by both.
\<close>

theorem sink_error_translation:
  "(create_sink gax_api (''projects/'' @ project)
      \<lparr>sink_name = name, sink_filter = filter', sink_destination = destination\<rparr> =
      Inl (GaxError c) \<longrightarrow>
    sink_create gax_api project name filter' destination =
      Inl (if exc_to_code c = Some FAILED_PRECONDITION
           then Conflict (''projects/'' @ project @ ''/sinks/'' @ name)
           else GaxError c)) \<and>
   (get_sink gax_api (''projects/'' @ project @ ''/sinks/'' @ name) = Inl (GaxError c) \<longrightarrow>
    sink_get gax_api project name =
      Inl (if exc_to_code c = Some NOT_FOUND
           then NotFound (''projects/'' @ project @ ''/sinks/'' @ name)
           else GaxError c))"
  by (simp add: sink_create_def sink_get_def)

theorem sink_error_translation_witness:
  "sink_create (example_sinks_api FAILED_PRECONDITION) ''p'' ''s'' ''f'' ''d'' =
     Inl (Conflict ''projects/p/sinks/s'') \<and>
   sink_get (example_sinks_api NOT_FOUND) ''p'' ''s'' = Inl (NotFound ''projects/p/sinks/s'') \<and>
   sink_create (example_sinks_api NOT_FOUND) ''p'' ''s'' ''f'' ''d'' =
     Inl (GaxError (RpcError NOT_FOUND)) \<and>
   sink_get (example_sinks_api FAILED_PRECONDITION) ''p'' ''s'' =
     Inl (GaxError (RpcError FAILED_PRECONDITION))"
  using sink_error_translation [of "example_sinks_api FAILED_PRECONDITION" "''p''" "''s''"
          "''f''" "''d''" "RpcError FAILED_PRECONDITION"]
        sink_error_translation [of "example_sinks_api NOT_FOUND" "''p''" "''s''"
          "''f''" "''d''" "RpcError NOT_FOUND"]
  by (simp add: example_sinks_api_def)

text \<open>
  Claim C10. After a successful transport call, \<open>sink_update\<close> returns the mapping with
  \<open>name\<close> the full path \<open>projects/{project}/sinks/{name}\<close>, \<open>filter\<close> and \<open>destination\<close> as
  passed, and \<open>metric_update\<close> returns \<open>name\<close> the path \<open>projects/{project}/metrics/{name}\<close>,
  \<open>filter\<close> and \<open>description\<close> as passed: the mapping of the request, whatever message the
  transport has returned.
\<close>

theorem update_returns_request:
  "(update_sink gax_api (''projects/'' @ project @ ''/sinks/'' @ name)
      \<lparr>sink_name = ''projects/'' @ project @ ''/sinks/'' @ name, sink_filter = filter',
       sink_destination = destination\<rparr> = Inr reply \<longrightarrow>
    (\<exists>m. sink_update gax_api project name filter' destination = Inr m \<and>
         distinct (map fst m) \<and>
         map_of m = [''name'' \<mapsto> PyStr (''projects/'' @ project @ ''/sinks/'' @ name),
                     ''filter'' \<mapsto> PyStr filter',
                     ''destination'' \<mapsto> PyStr destination])) \<and>
   (update_log_metric metrics_api (''projects/'' @ project @ ''/metrics/'' @ name)
      \<lparr>metric_name = ''projects/'' @ project @ ''/metrics/'' @ name, metric_filter = filter',
       metric_description = description\<rparr> = Inr metric_reply \<longrightarrow>
    (\<exists>m. metric_update metrics_api project name filter' description = Inr m \<and>
         distinct (map fst m) \<and>
         map_of m = [''name'' \<mapsto> PyStr (''projects/'' @ project @ ''/metrics/'' @ name),
                     ''filter'' \<mapsto> PyStr filter',
                     ''description'' \<mapsto> PyStr description]))"
  by (auto simp: sink_update_def metric_update_def log_sink_pb_to_mapping_def
        log_metric_pb_to_mapping_def)

theorem update_returns_request_witness:
  "sink_update (example_sinks_api OK) ''p'' ''s'' ''f'' ''d'' =
     Inr [(''name'', PyStr ''projects/p/sinks/s''), (''destination'', PyStr ''d''),
          (''filter'', PyStr ''f'')] \<and>
   metric_update example_metrics_api ''p'' ''m'' ''f'' ''d'' =
     Inr [(''name'', PyStr ''projects/p/metrics/m''), (''description'', PyStr ''d''),
          (''filter'', PyStr ''f'')]"
  using update_returns_request [where gax_api = "example_sinks_api OK" and project = "''p''"
          and name = "''s''" and filter' = "''f''" and destination = "''d''"
          and reply = "\<lparr>sink_name = ''other'', sink_filter = ''x'', sink_destination = ''y''\<rparr>"]
        update_returns_request [where metrics_api = example_metrics_api and project = "''p''"
          and name = "''m''" and filter' = "''f''" and description = "''d''"
          and metric_reply = "\<lparr>metric_name = ''other'', metric_filter = ''x'',
                                metric_description = ''y''\<rparr>"]
  by (simp add: example_sinks_api_def example_metrics_api_def sink_update_def
        metric_update_def log_sink_pb_to_mapping_def log_metric_pb_to_mapping_def)

section \<open>Logging: properties of the decoder of structured values\<close>

text \<open>
  Claim C5. For every \<open>Value\<close> message whose populated variant is none of \<open>string_value\<close>,
  \<open>bool_value\<close>, \<open>number_value\<close>, \<open>list_value\<close>, \<open>struct_value\<close>, the decoder
  \<open>_value_pb_to_value\<close> raises \<open>ValueError\<close>.
\<close>

theorem value_unknown_kind:
  assumes "WhichOneof value_pb = Some kind"
    and "kind \<notin> {''string_value'', ''bool_value'', ''number_value'', ''list_value'',
                  ''struct_value''}"
  shows "value_pb_to_value value_pb =
         Inl (ValueError (''Value protobuf had unknown kind: '' @ kind))"
  using assms by (simp add: value_pb_to_value.simps [of value_pb] Let_def)

theorem value_unknown_kind_witness:
  "WhichOneof NullValue = Some ''null_value'' \<and>
   value_pb_to_value NullValue =
     Inl (ValueError ''Value protobuf had unknown kind: null_value'')"
  using value_unknown_kind [of NullValue "''null_value''"] by simp

section \<open>Logging: the decoder of log entries\<close>

lemma bind_exn_simps [simp]:
  "bind_exn (Inl e) f = Inl e"
  "bind_exn (Inr x) f = f x"
  by (simp_all add: bind_exn_def)

lemma map_exn_simps [simp]:
  "map_exn g (Inl e) = Inl e"
  "map_exn g (Inr x) = Inr (g x)"
  by (simp_all add: map_exn_def)

lemma bind_exn_Inr: "bind_exn m f = Inr y \<longleftrightarrow> (\<exists>x. m = Inr x \<and> f x = Inr y)"
  by (cases m) simp_all

lemma map_exn_Inr: "map_exn g m = Inr y \<longleftrightarrow> (\<exists>x. m = Inr x \<and> y = g x)"
  by (cases m) auto

lemma bind_exn_assoc:
  "bind_exn (bind_exn m f) g = bind_exn m (\<lambda>x. bind_exn (f x) g)"
  by (cases m) simp_all

lemma bind_exn_Inr_right: "bind_exn m Inr = m"
  by (cases m) simp_all

lemma map_of_opt_update:
  "map_of (opt_update k vo al) k' = (if k' = k \<and> vo \<noteq> None then vo else map_of al k')"
  by (cases vo) (simp_all add: opt_update_def update_conv')

lemma opt_update_simps:
  "opt_update k None al = al"
  "opt_update k (Some v) al = AList.update k v al"
  by (simp_all add: opt_update_def)

lemma opt_update_if:
  "opt_update k (if c then Some v else None) al = (if c then AList.update k v al else al)"
  by (simp add: opt_update_def)

lemma opt_update_map_option:
  "opt_update k (map_option f x) al =
     (case x of None \<Rightarrow> al | Some y \<Rightarrow> AList.update k (f y) al)"
  by (cases x) (simp_all add: opt_update_def)

lemma log_entry_pb_to_mapping_alt:
  "log_entry_pb_to_mapping X entry_pb =
     bind_exn (LogSeverity_Name (severity entry_pb)) (\<lambda>name.
     bind_exn (pb_timestamp_to_rfc3339 X (timestamp entry_pb)) (\<lambda>rfc.
     bind_exn (if HasField entry_pb ''json_payload''
               then map_exn Some (struct_pb_to_mapping (json_payload entry_pb))
               else Inr None) (\<lambda>jo.
     Inr (decoded_mapping entry_pb name rfc jo))))"
proof (cases "LogSeverity_Name (severity entry_pb)")
  case (Inl e)
  then show ?thesis by (simp add: log_entry_pb_to_mapping_def)
next
  case name: (Inr name)
  show ?thesis
  proof (cases "pb_timestamp_to_rfc3339 X (timestamp entry_pb)")
    case (Inl e)
    with name show ?thesis by (simp add: log_entry_pb_to_mapping_def)
  next
    case rfc: (Inr rfc)
    show ?thesis
    proof (cases "HasField entry_pb ''json_payload''")
      case False
      with name rfc show ?thesis
        by (simp add: log_entry_pb_to_mapping_def decoded_mapping_def Let_def opt_update_if
              opt_update_map_option opt_update_simps split: option.splits)
    next
      case True
      with name rfc show ?thesis
        by (cases "struct_pb_to_mapping (json_payload entry_pb)")
           (simp_all add: log_entry_pb_to_mapping_def decoded_mapping_def Let_def
              opt_update_if opt_update_map_option opt_update_simps split: option.splits)
    qed
  qed
qed

lemma decoded_shape:
  assumes "log_entry_pb_to_mapping X entry_pb = Inr m"
  obtains name rfc jo where
    "LogSeverity_Name (severity entry_pb) = Inr name"
    "pb_timestamp_to_rfc3339 X (timestamp entry_pb) = Inr rfc"
    "if HasField entry_pb ''json_payload''
     then \<exists>j. struct_pb_to_mapping (json_payload entry_pb) = Inr j \<and> jo = Some j
     else jo = None"
    "m = decoded_mapping entry_pb name rfc jo"
  using assms unfolding log_entry_pb_to_mapping_alt bind_exn_Inr
  by (auto simp: map_exn_Inr split: if_splits)

lemma map_of_decoded_mapping:
  "map_of (decoded_mapping entry_pb name rfc jo) k =
     (if k = ''operation'' \<and> operation entry_pb \<noteq> None
      then map_option (\<lambda>p. PyDict (operation_to_mapping p)) (operation entry_pb)
      else if k = ''httpRequest'' \<and> http_request entry_pb \<noteq> None
      then map_option (\<lambda>r. PyDict (http_request_to_mapping r)) (http_request entry_pb)
      else if k = ''protoPayload'' \<and> HasField entry_pb ''proto_payload''
      then Some (PyMessage (proto_payload entry_pb))
      else if k = ''jsonPayload'' \<and> jo \<noteq> None then jo
      else if k = ''textPayload'' \<and> HasField entry_pb ''text_payload''
      then Some (PyStr (text_payload entry_pb))
      else map_of
        [(''logName'', PyStr (log_name entry_pb)),
         (''resource'', PyDict (mon_resource_pb_to_mapping (resource entry_pb))),
         (''severity'', PyStr name),
         (''insertId'', PyStr (insert_id entry_pb)),
         (''timestamp'', PyStr rfc),
         (''labels'', string_map (labels entry_pb))] k)"
  by (simp add: decoded_mapping_def map_of_opt_update)

lemma dom_decoded_mapping:
  "dom (map_of (decoded_mapping entry_pb name rfc jo)) =
     {''logName'', ''resource'', ''severity'', ''insertId'', ''timestamp'', ''labels''} \<union>
     (if HasField entry_pb ''text_payload'' then {''textPayload''} else {}) \<union>
     (if jo \<noteq> None then {''jsonPayload''} else {}) \<union>
     (if HasField entry_pb ''proto_payload'' then {''protoPayload''} else {}) \<union>
     (if http_request entry_pb \<noteq> None then {''httpRequest''} else {}) \<union>
     (if operation entry_pb \<noteq> None then {''operation''} else {})"
proof -
  have d: "\<And>k vo al. dom (map_of (opt_update k vo al)) =
            dom (map_of al) \<union> (if vo \<noteq> None then {k} else {})"
    by (auto simp: opt_update_def update_conv' split: option.splits)
  have b: "dom (map_of
        [(''logName'', PyStr (log_name entry_pb)),
         (''resource'', PyDict (mon_resource_pb_to_mapping (resource entry_pb))),
         (''severity'', PyStr name),
         (''insertId'', PyStr (insert_id entry_pb)),
         (''timestamp'', PyStr rfc),
         (''labels'', string_map (labels entry_pb))]) =
     {''logName'', ''resource'', ''severity'', ''insertId'', ''timestamp'', ''labels''}"
    unfolding dom_map_of_conv_image_fst by (simp add: insert_commute)
  show ?thesis
    unfolding decoded_mapping_def d b by (simp add: Un_assoc)
qed

lemmas decoder_defs =
  log_entry_pb_to_mapping_alt decoded_mapping_def opt_update_def
  mon_resource_pb_to_mapping_def http_request_to_mapping_def operation_to_mapping_def
  string_map_def HasField_def text_payload_def json_payload_def proto_payload_def
  LogSeverity_Name_def LogSeverity_values_def
  LogEntry_init_def HttpRequest_init_def LogEntryOperation_init_def

text \<open>
  Claim C2, as amended. For every \<open>LogEntry\<close> message that \<open>_log_entry_pb_to_mapping\<close>
  decodes: the keys \<open>logName\<close>, \<open>resource\<close>, \<open>severity\<close>, \<open>insertId\<close>, \<open>timestamp\<close> and \<open>labels\<close>
  are always in the mapping, whether or not the source field is populated; each of
  \<open>textPayload\<close>, \<open>jsonPayload\<close> and \<open>protoPayload\<close> is in the mapping exactly when \<open>HasField\<close>
  holds of \<open>text_payload\<close>, \<open>json_payload\<close>, \<open>proto_payload\<close>; and the mapping has no key
  besides these nine, \<open>httpRequest\<close> and \<open>operation\<close>.
\<close>

theorem decoded_keys:
  assumes "log_entry_pb_to_mapping X entry_pb = Inr m"
  shows "{''logName'', ''resource'', ''severity'', ''insertId'', ''timestamp'', ''labels''}
           \<subseteq> dom (map_of m) \<and>
         (''textPayload'' \<in> dom (map_of m) \<longleftrightarrow> HasField entry_pb ''text_payload'') \<and>
         (''jsonPayload'' \<in> dom (map_of m) \<longleftrightarrow> HasField entry_pb ''json_payload'') \<and>
         (''protoPayload'' \<in> dom (map_of m) \<longleftrightarrow> HasField entry_pb ''proto_payload'') \<and>
         dom (map_of m) \<subseteq>
           {''logName'', ''resource'', ''severity'', ''insertId'', ''timestamp'', ''labels'',
            ''textPayload'', ''jsonPayload'', ''protoPayload'', ''httpRequest'', ''operation''}"
proof -
  from assms obtain name rfc jo where
    j: "if HasField entry_pb ''json_payload''
     then \<exists>j. struct_pb_to_mapping (json_payload entry_pb) = Inr j \<and> jo = Some j
     else jo = None" and
    m: "m = decoded_mapping entry_pb name rfc jo"
    by (rule decoded_shape)
  have jo: "(jo \<noteq> None) = HasField entry_pb ''json_payload''"
    using j by (auto split: if_splits)
  have six: "{''logName'', ''resource'', ''severity'', ''insertId'', ''timestamp'', ''labels''}
               \<subseteq> dom (map_of m)"
    by (simp add: m domIff map_of_decoded_mapping)
  have t: "''textPayload'' \<in> dom (map_of m) \<longleftrightarrow> HasField entry_pb ''text_payload''"
    by (simp add: m domIff map_of_decoded_mapping)
  have js: "''jsonPayload'' \<in> dom (map_of m) \<longleftrightarrow> HasField entry_pb ''json_payload''"
    using jo by (simp add: m domIff map_of_decoded_mapping)
  have p: "''protoPayload'' \<in> dom (map_of m) \<longleftrightarrow> HasField entry_pb ''proto_payload''"
    by (simp add: m domIff map_of_decoded_mapping)
  have sub: "dom (map_of m) \<subseteq>
           {''logName'', ''resource'', ''severity'', ''insertId'', ''timestamp'', ''labels'',
            ''textPayload'', ''jsonPayload'', ''protoPayload'', ''httpRequest'', ''operation''}"
    unfolding m dom_decoded_mapping by (auto split: if_splits)
  from six t js p sub show ?thesis by blast
qed

theorem decoded_keys_witness:
  "log_entry_pb_to_mapping example_externals (LogEntry_init\<lparr>payload := TextPayload ''hello''\<rparr>) =
     Inr [(''logName'', PyStr []),
          (''resource'', PyDict [(''type'', PyStr [])]),
          (''severity'', PyStr ''DEFAULT''),
          (''insertId'', PyStr []),
          (''timestamp'', PyStr ''1970-01-01T00:00:00.000000Z''),
          (''labels'', PyDict []),
          (''textPayload'', PyStr ''hello''),
          (''httpRequest'',
           PyDict [(''requestMethod'', PyStr []), (''requestUrl'', PyStr []),
                   (''status'', PyInt 0), (''referer'', PyStr []), (''userAgent'', PyStr []),
                   (''cacheHit'', PyBool False), (''requestSize'', PyInt 0),
                   (''responseSize'', PyInt 0), (''remoteIp'', PyStr [])]),
          (''operation'',
           PyDict [(''producer'', PyStr []), (''id'', PyStr []), (''first'', PyBool False),
                   (''last'', PyBool False)])] \<and>
   HasField (LogEntry_init\<lparr>payload := TextPayload ''hello''\<rparr>) ''text_payload'' \<and>
   \<not> HasField (LogEntry_init\<lparr>payload := TextPayload ''hello''\<rparr>) ''json_payload'' \<and>
   \<not> HasField (LogEntry_init\<lparr>payload := TextPayload ''hello''\<rparr>) ''proto_payload''"
proof -
  have a: "log_entry_pb_to_mapping example_externals
             (LogEntry_init\<lparr>payload := TextPayload ''hello''\<rparr>) =
     Inr [(''logName'', PyStr []),
          (''resource'', PyDict [(''type'', PyStr [])]),
          (''severity'', PyStr ''DEFAULT''),
          (''insertId'', PyStr []),
          (''timestamp'', PyStr ''1970-01-01T00:00:00.000000Z''),
          (''labels'', PyDict []),
          (''textPayload'', PyStr ''hello''),
          (''httpRequest'',
           PyDict [(''requestMethod'', PyStr []), (''requestUrl'', PyStr []),
                   (''status'', PyInt 0), (''referer'', PyStr []), (''userAgent'', PyStr []),
                   (''cacheHit'', PyBool False), (''requestSize'', PyInt 0),
                   (''responseSize'', PyInt 0), (''remoteIp'', PyStr [])]),
          (''operation'',
           PyDict [(''producer'', PyStr []), (''id'', PyStr []), (''first'', PyBool False),
                   (''last'', PyBool False)])]"
    by (simp add: decoder_defs example_externals_def)
  have h: "HasField (LogEntry_init\<lparr>payload := TextPayload ''hello''\<rparr>) ''text_payload'' \<and>
           \<not> HasField (LogEntry_init\<lparr>payload := TextPayload ''hello''\<rparr>) ''json_payload'' \<and>
           \<not> HasField (LogEntry_init\<lparr>payload := TextPayload ''hello''\<rparr>) ''proto_payload''"
    by (simp add: HasField_def LogEntry_init_def)
  from decoded_keys [OF a] a h show ?thesis by simp
qed

text \<open>
  Claim C2, as stated, fails on the empty message \<open>LogEntry()\<close>: its \<open>log_name\<close> is
  unpopulated, and the decoder emits the key \<open>logName\<close> all the same.
\<close>

theorem decoded_keys_counterexample:
  "log_name LogEntry_init = [] \<and>
   (case log_entry_pb_to_mapping example_externals LogEntry_init of
      Inl e \<Rightarrow> None
    | Inr m \<Rightarrow> map_of m ''logName'') = Some (PyStr [])"
  by (simp add: log_entry_pb_to_mapping_alt map_of_decoded_mapping LogEntry_init_def
        LogSeverity_Name_def LogSeverity_values_def example_externals_def HasField_def)

section \<open>Logging: the encoder of log entries\<close>

lemma check_string_Inr: "check_string v = Inr s \<longleftrightarrow> v = PyStr s"
  by (cases v) (simp_all add: check_string_def)


lemma check_int_Inr:
  "check_int bits v = Inr n \<longleftrightarrow>
     integral_value v = Some n \<and> - (2 ^ (bits - 1)) \<le> n \<and> n < 2 ^ (bits - 1)"
  by (auto simp: check_int_def split: option.splits)

lemma integral_value_Some:
  "integral_value v = Some n \<longleftrightarrow>
     v = PyInt n \<or> (\<exists>b. v = PyBool b \<and> n = (if b then 1 else 0))"
  by (cases v) (auto simp: integral_value_def)

lemma readback_refl [simp]: "readback v v"
  by (simp add: readback_def)






lemma scalar_keys_loop_shape:
  assumes "scalar_keys_loop optional_scalar_keys mapping e = Inr e'"
  shows "\<exists>ln ii p. e' = e\<lparr>log_name := ln, insert_id := ii, payload := p\<rparr> \<and>
           (case map_of mapping ''logName'' of
              None \<Rightarrow> ln = log_name e | Some v \<Rightarrow> v = PyStr ln) \<and>
           (case map_of mapping ''insertId'' of
              None \<Rightarrow> ii = insert_id e | Some v \<Rightarrow> v = PyStr ii) \<and>
           (case map_of mapping ''textPayload'' of
              None \<Rightarrow> p = payload e | Some v \<Rightarrow> \<exists>s. v = PyStr s \<and> p = TextPayload s)"
  using assms
  by (auto simp: optional_scalar_keys_def setattr_LogEntry_def map_exn_Inr check_string_Inr
        split: option.splits sum.splits)

lemma set_resource_shape:
  assumes "set_resource mapping e = Inr e'"
  shows "\<exists>t. e' = e\<lparr>resource := (resource e)\<lparr>resource_type := t\<rparr>\<rparr> \<and>
           (case map_of mapping ''resource'' of
              None \<Rightarrow> t = resource_type (resource e)
            | Some r \<Rightarrow> py_getitem r ''type'' = Inr (PyStr t))"
  using assms
  by (auto simp: set_resource_def bind_exn_Inr map_exn_Inr check_string_Inr
        split: option.splits)

lemma set_severity_shape:
  assumes "set_severity mapping e = Inr e'"
  shows "\<exists>n. e' = e\<lparr>severity := n\<rparr> \<and>
           (case map_of mapping ''severity'' of
              None \<Rightarrow> n = severity e
            | Some v \<Rightarrow> (\<forall>name. v = PyStr name \<longrightarrow> LogSeverity_Value name = Inr n) \<and>
                       (\<forall>k. integral_value v = Some k \<longrightarrow> k = n) \<and>
                       ((\<exists>name. v = PyStr name) \<or> integral_value v = Some n))"
proof (cases "map_of mapping ''severity''")
  case None
  with assms have "e' = e\<lparr>severity := severity e\<rparr>" by (simp add: set_severity_def)
  with None show ?thesis by auto
next
  case (Some v)
  show ?thesis
  proof (cases "\<exists>name. v = PyStr name")
    case True
    then obtain name where v: "v = PyStr name" ..
    from assms Some v obtain n where "LogSeverity_Value name = Inr n" "e' = e\<lparr>severity := n\<rparr>"
      by (auto simp: set_severity_def bind_exn_Inr map_exn_Inr check_int_Inr integral_value_def)
    with Some v show ?thesis by (auto simp: integral_value_def)
  next
    case False
    then have "(case v of PyStr name \<Rightarrow> map_exn PyInt (LogSeverity_Value name) | _ \<Rightarrow> Inr v) = Inr v"
      by (cases v) auto
    with assms Some obtain n where "check_int 32 v = Inr n" "e' = e\<lparr>severity := n\<rparr>"
      by (auto simp: set_severity_def map_exn_Inr)
    with Some False show ?thesis by (auto simp: check_int_Inr)
  qed
qed

lemma set_timestamp_shape:
  assumes "set_timestamp X mapping e = Inr e'"
  shows "\<exists>t. e' = e\<lparr>timestamp := t\<rparr> \<and>
           (case map_of mapping ''timestamp'' of
              None \<Rightarrow> t = timestamp e
            | Some w \<Rightarrow> datetime_to_pb_timestamp X w = Inr t)"
  using assms
  by (auto simp: set_timestamp_def map_exn_Inr split: option.splits)

lemma set_proto_payload_shape:
  assumes "set_proto_payload X mapping e = Inr e'"
  shows "\<exists>p. e' = e\<lparr>payload := p\<rparr> \<and>
           (case map_of mapping ''protoPayload'' of
              None \<Rightarrow> p = payload e
            | Some v \<Rightarrow> \<exists>a. Parse_json_dumps X v = Inr a \<and> p = ProtoPayload a)"
  using assms
  by (auto simp: set_proto_payload_def map_exn_Inr split: option.splits)

lemma set_http_request_shape:
  assumes "set_http_request mapping e = Inr e'"
  shows "case map_of mapping ''httpRequest'' of
           None \<Rightarrow> e' = e
         | Some info \<Rightarrow>
             \<exists>r r'. http_request e = Some r \<and> http_request_mapping_to_pb info r = Inr r' \<and>
                    e' = e\<lparr>http_request := Some r'\<rparr>"
  using assms
  by (auto simp: set_http_request_def map_exn_Inr split: option.splits)

lemma set_operation_shape:
  assumes "set_operation mapping e = Inr e'"
  shows "case map_of mapping ''operation'' of
           None \<Rightarrow> e' = e
         | Some info \<Rightarrow>
             \<exists>r r'. operation e = Some r \<and> log_operation_mapping_to_pb info r = Inr r' \<and>
                    e' = e\<lparr>operation := Some r'\<rparr>"
  using assms
  by (auto simp: set_operation_def map_exn_Inr split: option.splits)

lemma labels_loop_shape:
  "labels_loop d e = Inr e' \<Longrightarrow> \<exists>l. e' = e\<lparr>labels := l\<rparr>"
proof (induction d arbitrary: e)
  case Nil
  then show ?case by (auto intro: exI [of _ "labels e"])
next
  case (Cons kv d)
  then show ?case by (fastforce split: sum.splits)
qed

lemma json_payload_loop_shape:
  "json_payload_loop F d e = Inr e' \<Longrightarrow> \<exists>p. e' = e\<lparr>payload := p\<rparr>"
proof (induction d arbitrary: e)
  case Nil
  then show ?case by (auto intro: exI [of _ "payload e"])
next
  case (Cons kv d)
  then show ?case by (fastforce split: sum.splits)
qed

lemma set_labels_frame:
  "set_labels mapping e = Inr e' \<Longrightarrow> \<exists>l. e' = e\<lparr>labels := l\<rparr>"
  by (auto simp: set_labels_def bind_exn_Inr split: option.splits
        intro: exI [of _ "labels e"] dest: labels_loop_shape)

lemma set_json_payload_frame:
  "set_json_payload X mapping e = Inr e' \<Longrightarrow> \<exists>p. e' = e\<lparr>payload := p\<rparr>"
  by (auto simp: set_json_payload_def bind_exn_Inr split: option.splits
        intro: exI [of _ "payload e"] dest: json_payload_loop_shape)

lemma set_proto_payload_frame:
  "set_proto_payload X mapping e = Inr e' \<Longrightarrow> \<exists>p. e' = e\<lparr>payload := p\<rparr>"
  by (auto dest: set_proto_payload_shape)

lemma set_http_request_frame:
  assumes "set_http_request mapping e = Inr e'"
  shows "\<exists>r. e' = e\<lparr>http_request := r\<rparr>"
proof (cases "map_of mapping ''httpRequest''")
  case None
  with set_http_request_shape [OF assms] have "e' = e\<lparr>http_request := http_request e\<rparr>"
    by simp
  then show ?thesis ..
next
  case (Some info)
  with set_http_request_shape [OF assms] show ?thesis by auto
qed

lemma set_operation_frame:
  assumes "set_operation mapping e = Inr e'"
  shows "\<exists>r. e' = e\<lparr>operation := r\<rparr>"
proof (cases "map_of mapping ''operation''")
  case None
  with set_operation_shape [OF assms] have "e' = e\<lparr>operation := operation e\<rparr>"
    by simp
  then show ?thesis ..
next
  case (Some info)
  with set_operation_shape [OF assms] show ?thesis by auto
qed

lemma encoded_steps:
  assumes "log_entry_mapping_to_pb X mapping = Inr pb"
  obtains e1 e2 e3 e4 e5 e6 e7 e8 where
    "scalar_keys_loop optional_scalar_keys mapping LogEntry_init = Inr e1"
    "set_resource mapping e1 = Inr e2"
    "set_severity mapping e2 = Inr e3"
    "set_timestamp X mapping e3 = Inr e4"
    "set_labels mapping e4 = Inr e5"
    "set_json_payload X mapping e5 = Inr e6"
    "set_proto_payload X mapping e6 = Inr e7"
    "set_http_request mapping e7 = Inr e8"
    "set_operation mapping e8 = Inr pb"
  using assms unfolding log_entry_mapping_to_pb_def bind_exn_Inr by blast

lemmas encoder_defs =
  log_entry_mapping_to_pb_def optional_scalar_keys_def setattr_LogEntry_def
  set_resource_def set_severity_def set_timestamp_def set_labels_def set_json_payload_def
  set_proto_payload_def set_http_request_def set_operation_def
  http_request_mapping_to_pb_def optional_request_keys_def setattr_HttpRequest_def
  log_operation_mapping_to_pb_def check_string_def check_bool_def check_int_def
  LogSeverity_Value_def LogSeverity_values_def Struct_setitem_def json_payload_def
  integral_value_def
  LogEntry_init_def HttpRequest_init_def LogEntryOperation_init_def

text \<open>
  Claim C7. For every input mapping with a \<open>severity\<close> key from which
  \<open>_log_entry_mapping_to_pb\<close> builds a message, the \<open>severity\<close> field of the message is the
  numeric code: the code the enum \<open>LogSeverity\<close> gives for a symbolic name, and the number
  itself when the value is already a number (a \<open>bool\<close> is the number 0 or 1). No value of
  another type is accepted.
\<close>

theorem severity_normalised:
  assumes "log_entry_mapping_to_pb X mapping = Inr entry_pb"
  shows "(\<forall>name. map_of mapping ''severity'' = Some (PyStr name) \<longrightarrow>
            LogSeverity_Value name = Inr (severity entry_pb)) \<and>
         (\<forall>n. map_of mapping ''severity'' = Some (PyInt n) \<longrightarrow> severity entry_pb = n) \<and>
         (\<forall>b. map_of mapping ''severity'' = Some (PyBool b) \<longrightarrow>
            severity entry_pb = (if b then 1 else 0)) \<and>
         (\<forall>v. map_of mapping ''severity'' = Some v \<longrightarrow>
            (\<exists>name. v = PyStr name) \<or> (\<exists>n. v = PyInt n) \<or> (\<exists>b. v = PyBool b))"
proof -
  from assms obtain e2 e3 e4 e5 e6 e7 e8 where
    s3: "set_severity mapping e2 = Inr e3" and
    s4: "set_timestamp X mapping e3 = Inr e4" and
    s5: "set_labels mapping e4 = Inr e5" and
    s6: "set_json_payload X mapping e5 = Inr e6" and
    s7: "set_proto_payload X mapping e6 = Inr e7" and
    s8: "set_http_request mapping e7 = Inr e8" and
    s9: "set_operation mapping e8 = Inr entry_pb"
    by (rule encoded_steps)
  have "severity entry_pb = severity e8"
    using set_operation_frame [OF s9] by auto
  also have "\<dots> = severity e7" using set_http_request_frame [OF s8] by auto
  also have "\<dots> = severity e6" using set_proto_payload_frame [OF s7] by auto
  also have "\<dots> = severity e5" using set_json_payload_frame [OF s6] by auto
  also have "\<dots> = severity e4" using set_labels_frame [OF s5] by auto
  also have "\<dots> = severity e3" using set_timestamp_shape [OF s4] by auto
  finally have eq: "severity entry_pb = severity e3" .
  from set_severity_shape [OF s3] obtain n where
    e3: "e3 = e2\<lparr>severity := n\<rparr>" and
    n: "case map_of mapping ''severity'' of None \<Rightarrow> n = severity e2
        | Some v \<Rightarrow> (\<forall>name. v = PyStr name \<longrightarrow> LogSeverity_Value name = Inr n) \<and>
                   (\<forall>k. integral_value v = Some k \<longrightarrow> k = n) \<and>
                   ((\<exists>name. v = PyStr name) \<or> integral_value v = Some n)"
    by blast
  have sn: "severity entry_pb = n" by (simp add: eq e3)
  have a: "LogSeverity_Value name = Inr (severity entry_pb)"
    if "map_of mapping ''severity'' = Some (PyStr name)" for name
    using n that by (simp add: sn)
  have b: "severity entry_pb = k" if "map_of mapping ''severity'' = Some (PyInt k)" for k
    using n that by (simp add: sn integral_value_def)
  have c: "severity entry_pb = (if b then 1 else 0)"
    if "map_of mapping ''severity'' = Some (PyBool b)" for b
    using n that by (simp add: sn integral_value_def)
  have d: "(\<exists>name. v = PyStr name) \<or> (\<exists>n. v = PyInt n) \<or> (\<exists>b. v = PyBool b)"
    if "map_of mapping ''severity'' = Some v" for v
    using n that by (auto simp: integral_value_Some)
  from a b c d show ?thesis by blast
qed

theorem severity_normalised_witness:
  "log_entry_mapping_to_pb example_externals [(''severity'', PyStr ''INFO'')] =
     Inr (LogEntry_init\<lparr>severity := 200\<rparr>) \<and>
   LogSeverity_Value ''INFO'' = Inr 200 \<and>
   log_entry_mapping_to_pb example_externals [(''severity'', PyInt 300)] =
     Inr (LogEntry_init\<lparr>severity := 300\<rparr>) \<and>
   log_entry_mapping_to_pb example_externals [(''severity'', PyBool True)] =
     Inr (LogEntry_init\<lparr>severity := 1\<rparr>)"
proof -
  have a: "log_entry_mapping_to_pb example_externals [(''severity'', PyStr ''INFO'')] =
             Inr (LogEntry_init\<lparr>severity := 200\<rparr>)"
    by (simp add: encoder_defs)
  have b: "log_entry_mapping_to_pb example_externals [(''severity'', PyInt 300)] =
             Inr (LogEntry_init\<lparr>severity := 300\<rparr>)"
    by (simp add: encoder_defs)
  have c: "log_entry_mapping_to_pb example_externals [(''severity'', PyBool True)] =
             Inr (LogEntry_init\<lparr>severity := 1\<rparr>)"
    by (simp add: encoder_defs)
  from severity_normalised [OF a] severity_normalised [OF b] severity_normalised [OF c] a b c
  show ?thesis by simp
qed

lemma scalar_keys_loop_delete:
  "k \<notin> fst ` set keys \<Longrightarrow>
   scalar_keys_loop keys (AList.delete k mapping) e = scalar_keys_loop keys mapping e"
  by (induction keys arbitrary: e) (auto simp: delete_conv split: option.splits sum.splits)

lemma delete_operation_steps:
  "scalar_keys_loop optional_scalar_keys (AList.delete ''operation'' mapping) e =
     scalar_keys_loop optional_scalar_keys mapping e"
  "set_resource (AList.delete ''operation'' mapping) e = set_resource mapping e"
  "set_severity (AList.delete ''operation'' mapping) e = set_severity mapping e"
  "set_timestamp X (AList.delete ''operation'' mapping) e = set_timestamp X mapping e"
  "set_labels (AList.delete ''operation'' mapping) e = set_labels mapping e"
  "set_json_payload X (AList.delete ''operation'' mapping) e = set_json_payload X mapping e"
  "set_proto_payload X (AList.delete ''operation'' mapping) e = set_proto_payload X mapping e"
  "set_http_request (AList.delete ''operation'' mapping) e = set_http_request mapping e"
  "set_operation (AList.delete ''operation'' mapping) e = Inr e"
proof -
  show "scalar_keys_loop optional_scalar_keys (AList.delete ''operation'' mapping) e =
          scalar_keys_loop optional_scalar_keys mapping e"
    by (rule scalar_keys_loop_delete) (simp add: optional_scalar_keys_def)
qed (simp_all add: set_resource_def set_severity_def set_timestamp_def set_labels_def
       set_json_payload_def set_proto_payload_def set_http_request_def set_operation_def
       delete_conv)

lemma encode_delete_operation:
  "log_entry_mapping_to_pb X mapping =
     bind_exn (log_entry_mapping_to_pb X (AList.delete ''operation'' mapping))
       (set_operation mapping)"
  unfolding log_entry_mapping_to_pb_def delete_operation_steps bind_exn_assoc
  by (simp add: bind_exn_Inr_right)

lemma encoded_operation:
  assumes "log_entry_mapping_to_pb X mapping = Inr pb"
  shows "\<exists>r. operation pb = Some r"
proof -
  from assms obtain e1 e2 e3 e4 e5 e6 e7 e8 where
    s1: "scalar_keys_loop optional_scalar_keys mapping LogEntry_init = Inr e1" and
    s2: "set_resource mapping e1 = Inr e2" and
    s3: "set_severity mapping e2 = Inr e3" and
    s4: "set_timestamp X mapping e3 = Inr e4" and
    s5: "set_labels mapping e4 = Inr e5" and
    s6: "set_json_payload X mapping e5 = Inr e6" and
    s7: "set_proto_payload X mapping e6 = Inr e7" and
    s8: "set_http_request mapping e7 = Inr e8" and
    s9: "set_operation mapping e8 = Inr pb"
    by (rule encoded_steps)
  have "operation e1 = Some LogEntryOperation_init"
    using scalar_keys_loop_shape [OF s1] by (auto simp: LogEntry_init_def)
  then have "operation e2 = Some LogEntryOperation_init"
    using set_resource_shape [OF s2] by auto
  then have "operation e3 = Some LogEntryOperation_init"
    using set_severity_shape [OF s3] by auto
  then have "operation e4 = Some LogEntryOperation_init"
    using set_timestamp_shape [OF s4] by auto
  then have "operation e5 = Some LogEntryOperation_init"
    using set_labels_frame [OF s5] by auto
  then have "operation e6 = Some LogEntryOperation_init"
    using set_json_payload_frame [OF s6] by auto
  then have "operation e7 = Some LogEntryOperation_init"
    using set_proto_payload_frame [OF s7] by auto
  then have "operation e8 = Some LogEntryOperation_init"
    using set_http_request_frame [OF s8] by auto
  then show ?thesis
    using set_operation_shape [OF s9] by (auto split: option.splits)
qed

lemma operation_without_producer:
  "map_of info ''producer'' = None \<Longrightarrow>
   log_operation_mapping_to_pb (PyDict info) r = Inl (KeyError ''producer'')"
  by (simp add: log_operation_mapping_to_pb_def)

lemma operation_without_id:
  "map_of info ''producer'' = Some (PyStr s) \<Longrightarrow> map_of info ''id'' = None \<Longrightarrow>
   log_operation_mapping_to_pb (PyDict info) r = Inl (KeyError ''id'')"
  by (simp add: log_operation_mapping_to_pb_def check_string_def)

lemma operation_incomplete:
  assumes "map_of info ''producer'' = None \<or> map_of info ''id'' = None"
  shows "\<exists>e. log_operation_mapping_to_pb (PyDict info) r = Inl e"
proof (cases "map_of info ''producer''")
  case None
  then show ?thesis by (simp add: operation_without_producer)
next
  case (Some v)
  with assms have i: "map_of info ''id'' = None" by simp
  show ?thesis
  proof (cases "check_string v")
    case (Inl e)
    with Some show ?thesis by (simp add: log_operation_mapping_to_pb_def)
  next
    case (Inr s)
    then have "v = PyStr s" by (simp add: check_string_Inr)
    with Some i show ?thesis by (simp add: operation_without_id)
  qed
qed

text \<open>
  Claim C9. For every input mapping whose \<open>operation\<close> sub-mapping lacks \<open>producer\<close> or
  \<open>id\<close>, \<open>_log_entry_mapping_to_pb\<close> raises and returns no message: \<open>producer\<close> and \<open>id\<close> are
  mandatory whenever \<open>operation\<close> is present. On a mapping that is accepted but for its
  \<open>operation\<close> entry (with a string for \<open>producer\<close>, if it has one), the error is the
  \<open>KeyError\<close> of the missing key.
\<close>

theorem operation_requires_producer_and_id:
  assumes "map_of mapping ''operation'' = Some (PyDict info)"
    and "map_of info ''producer'' = None \<or> map_of info ''id'' = None"
  shows "(\<exists>e. log_entry_mapping_to_pb X mapping = Inl e) \<and>
         (\<forall>pb. log_entry_mapping_to_pb X (AList.delete ''operation'' mapping) = Inr pb \<longrightarrow>
            (\<forall>v. map_of info ''producer'' = Some v \<longrightarrow> (\<exists>s. v = PyStr s)) \<longrightarrow>
            log_entry_mapping_to_pb X mapping =
              Inl (KeyError (if map_of info ''producer'' = None then ''producer'' else ''id'')))"
proof (cases "log_entry_mapping_to_pb X (AList.delete ''operation'' mapping)")
  case (Inl e)
  then show ?thesis by (simp add: encode_delete_operation [of X mapping])
next
  case (Inr pb)
  from encoded_operation [OF Inr] obtain r where r: "operation pb = Some r" ..
  have eq: "log_entry_mapping_to_pb X mapping =
              map_exn (\<lambda>r'. pb\<lparr>operation := Some r'\<rparr>)
                (log_operation_mapping_to_pb (PyDict info) r)"
    using Inr r assms(1) by (simp add: encode_delete_operation [of X mapping] set_operation_def)
  from operation_incomplete [OF assms(2), of r] obtain e where
    "log_operation_mapping_to_pb (PyDict info) r = Inl e" ..
  then have a: "\<exists>e. log_entry_mapping_to_pb X mapping = Inl e"
    by (simp add: eq)
  have b: "log_entry_mapping_to_pb X mapping =
             Inl (KeyError (if map_of info ''producer'' = None then ''producer'' else ''id''))"
    if "\<forall>v. map_of info ''producer'' = Some v \<longrightarrow> (\<exists>s. v = PyStr s)"
  proof (cases "map_of info ''producer''")
    case None
    then show ?thesis by (simp add: eq operation_without_producer)
  next
    case (Some v)
    with that obtain s where "map_of info ''producer'' = Some (PyStr s)" by auto
    moreover from Some assms(2) have "map_of info ''id'' = None" by simp
    ultimately show ?thesis by (simp add: eq operation_without_id)
  qed
  from a b Inr show ?thesis by simp
qed

theorem operation_requires_producer_and_id_witness:
  "map_of [(''logName'', PyStr ''log''), (''operation'', PyDict [(''producer'', PyStr ''p'')])]
     ''operation'' = Some (PyDict [(''producer'', PyStr ''p'')]) \<and>
   map_of [(''producer'', PyStr ''p'')] ''id'' = None \<and>
   log_entry_mapping_to_pb example_externals
     (AList.delete ''operation''
        [(''logName'', PyStr ''log''), (''operation'', PyDict [(''producer'', PyStr ''p'')])]) =
     Inr (LogEntry_init\<lparr>log_name := ''log''\<rparr>) \<and>
   log_entry_mapping_to_pb example_externals
     [(''logName'', PyStr ''log''), (''operation'', PyDict [(''producer'', PyStr ''p'')])] =
     Inl (KeyError ''id'')"
proof -
  have a: "map_of [(''logName'', PyStr ''log''),
                   (''operation'', PyDict [(''producer'', PyStr ''p'')])] ''operation'' =
             Some (PyDict [(''producer'', PyStr ''p'')])"
    by simp
  have b: "map_of [(''producer'', PyStr ''p'')] ''producer'' = None \<or>
           map_of [(''producer'', PyStr ''p'')] ''id'' = None"
    by simp
  have c: "log_entry_mapping_to_pb example_externals
             (AList.delete ''operation''
                [(''logName'', PyStr ''log''),
                 (''operation'', PyDict [(''producer'', PyStr ''p'')])]) =
             Inr (LogEntry_init\<lparr>log_name := ''log''\<rparr>)"
    by (simp add: encoder_defs AList.delete_eq)
  from operation_requires_producer_and_id [OF a b, of example_externals] a c
  show ?thesis by simp
qed

section \<open>Logging: encoding a mapping and decoding it back\<close>


























end
